theory Spec2Isabelle
  imports Main "HOL-Library.Word"
begin

section \<open>Host terms and the NIF accessors\<close>

text \<open>
  The two C files are NIFs: every entry point receives Erlang terms and builds an Erlang
  term. A term is modelled by its shape. An integer is unbounded (the runtime has
  bignums), a float is the bit pattern of its IEEE-754 double (no arithmetic is done on
  it here), a binary is its bytes, a map is the list of its entries in the order the map
  iterator visits them. Atoms are Latin-1 byte strings, which is what
  \<^verbatim>\<open>enif_get_atom(..., ERL_NIF_LATIN1)\<close> can read; lists are proper lists.
\<close>

type_synonym byte = "8 word"

datatype eterm =
    Atom string
  | Integer int
  | Float "64 word"
  | Binary "byte list"
  | List "eterm list"
  | Tuple "eterm list"
  | Map "(eterm \<times> eterm) list"

text \<open>What a NIF hands back: a term, or the \<^verbatim>\<open>badarg\<close> exception of
  \<^verbatim>\<open>enif_make_badarg\<close>.\<close>

datatype nif_ret = Badarg | Ret eterm

definition LONG_MIN :: int where "LONG_MIN = - (2 ^ 63)"
definition LONG_MAX :: int where "LONG_MAX = 2 ^ 63 - 1"
definition INT_MIN :: int where "INT_MIN = - (2 ^ 31)"
definition INT_MAX :: int where "INT_MAX = 2 ^ 31 - 1"

text \<open>Buffer sizes of \<^verbatim>\<open>fitsio.h\<close> (the header is not part of the repository;
  these are the values CFITSIO declares) and the size of the \<^verbatim>\<open>filename\<close> array.\<close>

definition FLEN_KEYWORD :: nat where "FLEN_KEYWORD = 75"
definition FLEN_VALUE :: nat where "FLEN_VALUE = 71"
definition FILENAME_SIZE :: nat where "FILENAME_SIZE = 1024"
definition FLOAT_IMG :: int where "FLOAT_IMG = - 32"

text \<open>A C string ends at its first NUL.\<close>

definition c_str :: "string \<Rightarrow> string" where
  "c_str s = takeWhile (\<lambda>c. c \<noteq> CHR 0x00) s"

definition c_path :: "byte list \<Rightarrow> byte list" where
  "c_path bs = takeWhile (\<lambda>b. b \<noteq> 0) bs"

definition enif_inspect_binary :: "eterm \<Rightarrow> byte list option" where
  "enif_inspect_binary t = (case t of Binary bs \<Rightarrow> Some bs | _ \<Rightarrow> None)"

definition enif_get_long :: "eterm \<Rightarrow> int option" where
  "enif_get_long t =
     (case t of Integer n \<Rightarrow> (if LONG_MIN \<le> n \<and> n \<le> LONG_MAX then Some n else None)
      | _ \<Rightarrow> None)"

definition enif_get_int :: "eterm \<Rightarrow> int option" where
  "enif_get_int t =
     (case t of Integer n \<Rightarrow> (if INT_MIN \<le> n \<and> n \<le> INT_MAX then Some n else None)
      | _ \<Rightarrow> None)"

definition enif_get_double :: "eterm \<Rightarrow> 64 word option" where
  "enif_get_double t = (case t of Float d \<Rightarrow> Some d | _ \<Rightarrow> None)"

definition enif_is_number :: "eterm \<Rightarrow> bool" where
  "enif_is_number t = (case t of Integer _ \<Rightarrow> True | Float _ \<Rightarrow> True | _ \<Rightarrow> False)"

definition enif_is_binary :: "eterm \<Rightarrow> bool" where
  "enif_is_binary t = (case t of Binary _ \<Rightarrow> True | _ \<Rightarrow> False)"

definition enif_is_list :: "eterm \<Rightarrow> bool" where
  "enif_is_list t = (case t of List _ \<Rightarrow> True | _ \<Rightarrow> False)"

definition enif_is_map :: "eterm \<Rightarrow> bool" where
  "enif_is_map t = (case t of Map _ \<Rightarrow> True | _ \<Rightarrow> False)"

text \<open>\<^verbatim>\<open>enif_get_atom(env, t, buf, size, ERL_NIF_LATIN1)\<close>: the atom's text when it fits
  \<open>sz\<close> bytes with its terminating NUL, else failure (return value 0).\<close>

definition enif_get_atom :: "eterm \<Rightarrow> nat \<Rightarrow> string option" where
  "enif_get_atom t sz =
     (case t of Atom a \<Rightarrow> (if length a < sz then Some a else None) | _ \<Rightarrow> None)"

text \<open>\<^verbatim>\<open>enif_get_string(env, t, buf, size, ERL_NIF_LATIN1)\<close> reads a list of bytes
  (a charlist). It returns the number of bytes written, NUL included, \<open>0\<close> when the
  term is not such a list (a binary is not), and \<open>- sz\<close> when the text was cut to
  fit. The second component is the buffer.\<close>

fun latin1_chars :: "eterm list \<Rightarrow> string option" where
  "latin1_chars [] = Some []"
| "latin1_chars (Integer n # ts) =
     (if 0 \<le> n \<and> n \<le> 255
      then (case latin1_chars ts of None \<Rightarrow> None | Some cs \<Rightarrow> Some (char_of n # cs))
      else None)"
| "latin1_chars (_ # ts) = None"

definition enif_get_string :: "eterm \<Rightarrow> nat \<Rightarrow> int \<times> string" where
  "enif_get_string t sz =
     (case t of
        List ts \<Rightarrow>
          (case latin1_chars ts of
             None \<Rightarrow> (0, [])
           | Some cs \<Rightarrow>
               if length cs < sz then (int (length cs) + 1, cs)
               else (- int sz, take (sz - 1) cs))
      | _ \<Rightarrow> (0, []))"

definition enif_make_string :: "string \<Rightarrow> eterm" where
  "enif_make_string s = List (map (\<lambda>c. Integer (of_char c)) s)"

definition enif_get_map_size :: "eterm \<Rightarrow> nat option" where
  "enif_get_map_size t = (case t of Map es \<Rightarrow> Some (length es) | _ \<Rightarrow> None)"

definition enif_map_iterator_create :: "eterm \<Rightarrow> (eterm \<times> eterm) list option" where
  "enif_map_iterator_create t = (case t of Map es \<Rightarrow> Some es | _ \<Rightarrow> None)"

definition error_int :: "int \<Rightarrow> nif_ret" where
  "error_int status = Ret (Tuple [Atom ''error'', Integer status])"

definition error_atom :: "string \<Rightarrow> nif_ret" where
  "error_atom a = Ret (Tuple [Atom ''error'', Atom a])"

definition ok :: nif_ret where
  "ok = Ret (Atom ''ok'')"

section \<open>Decoding a header value (\<^verbatim>\<open>read_header\<close>)\<close>

text \<open>\<^verbatim>\<open>strtol(value, &endptr, 10)\<close>: white space, an optional sign, decimal digits.
  The result is the number (clamped to the range of \<^verbatim>\<open>long\<close>) and the text from
  \<^verbatim>\<open>endptr\<close> on; with no digit, nothing is consumed and the number is 0.\<close>

definition isspace :: "char \<Rightarrow> bool" where
  "isspace c = ((of_char c :: nat) = 32 \<or> (9 \<le> (of_char c :: nat) \<and> (of_char c :: nat) \<le> 13))"

definition isdigit :: "char \<Rightarrow> bool" where
  "isdigit c = (48 \<le> (of_char c :: nat) \<and> (of_char c :: nat) \<le> 57)"

definition digits_value :: "string \<Rightarrow> int" where
  "digits_value ds = foldl (\<lambda>a c. 10 * a + (of_char c - 48)) 0 ds"

definition strtol :: "string \<Rightarrow> int \<times> string" where
  "strtol s =
     (let s1 = dropWhile isspace s;
          neg = (s1 \<noteq> [] \<and> hd s1 = CHR ''-'');
          s2 = (if s1 \<noteq> [] \<and> (hd s1 = CHR ''-'' \<or> hd s1 = CHR ''+'') then tl s1 else s1);
          ds = takeWhile isdigit s2;
          n = (if neg then - digits_value ds else digits_value ds)
      in if ds = [] then (0, s)
         else (max LONG_MIN (min LONG_MAX n), dropWhile isdigit s2))"

text \<open>\<^verbatim>\<open>sscanf(value, "%lf", &dval)\<close> (line 224), whose return value the code does not
  test. The conversion skips white space and needs the start of a number: an optional
  sign, then a digit, a point, or the first letter of \<^verbatim>\<open>inf\<close> or \<^verbatim>\<open>nan\<close>. Where the text
  has no such start nothing is converted and \<^verbatim>\<open>dval\<close> keeps what it held, which is the
  content of an uninitialised variable (\<open>dval0\<close>, a parameter). Where a number may start,
  the C library decides: \<open>conv\<close> gives the double it stores, as a bit pattern, or
  \<open>None\<close> when it converts nothing.\<close>

definition number_may_start :: "string \<Rightarrow> bool" where
  "number_may_start s =
     (let s1 = dropWhile isspace s;
          s2 = (if s1 \<noteq> [] \<and> (hd s1 = CHR ''-'' \<or> hd s1 = CHR ''+'') then tl s1 else s1)
      in case s2 of
           [] \<Rightarrow> False
         | c # cs \<Rightarrow> isdigit c \<or> c = CHR ''.'' \<or> c \<in> set ''iInN'')"

definition sscanf_lf :: "(string \<Rightarrow> 64 word option) \<Rightarrow> 64 word \<Rightarrow> string \<Rightarrow> 64 word" where
  "sscanf_lf conv dval0 v =
     (if number_may_start v then (case conv v of Some d \<Rightarrow> d | None \<Rightarrow> dval0) else dval0)"

text \<open>\<^verbatim>\<open>enif_make_double\<close> makes a float term of a finite double and the \<^verbatim>\<open>badarg\<close>
  exception of an infinity or a NaN (all eleven exponent bits set). The exception stays
  pending in the environment: \<^verbatim>\<open>read_header\<close> then raises \<^verbatim>\<open>badarg\<close> when it returns.\<close>

definition isfinite :: "64 word \<Rightarrow> bool" where
  "isfinite d = (take_bit 11 (drop_bit 52 d) \<noteq> (2047 :: 64 word))"

definition enif_make_double :: "64 word \<Rightarrow> nif_ret" where
  "enif_make_double d = (if isfinite d then Ret (Float d) else Badarg)"

text \<open>The classification of a value, \<^verbatim>\<open>exfits_nif.c\<close> lines 211-235: the term put in the
  map for the card, or the exception \<^verbatim>\<open>enif_make_double\<close> raised.\<close>

definition decode_value :: "(string \<Rightarrow> 64 word option) \<Rightarrow> 64 word \<Rightarrow> string \<Rightarrow> nif_ret" where
  "decode_value conv dval0 v =
     (if v \<noteq> [] \<and> hd v = CHR 0x27 then
        (if length v \<ge> 2 \<and> v ! 0 = CHR 0x27 \<and> v ! (length v - 1) = CHR 0x27
         then Ret (enif_make_string (tl (take (length v - 1) v)))
         else Ret (enif_make_string v))
      else if CHR ''.'' \<in> set v then enif_make_double (sscanf_lf conv dval0 v)
      else (case strtol v of
              (ival, endptr) \<Rightarrow>
                if endptr = [] then Ret (Integer ival) else Ret (enif_make_string v)))"

section \<open>The imaging library and the process environment\<close>

text \<open>
  CFITSIO, the C library's \<^verbatim>\<open>remove\<close>, \<^verbatim>\<open>fopen\<close> and \<^verbatim>\<open>malloc\<close>, and the
  runtime's \<^verbatim>\<open>enif_alloc_binary\<close> are not part of the repository. They are a parameter
  of the model: a record of functions over a world \<open>'w\<close> (the file system and the
  library's open handle). Each CFITSIO function takes the status it is called with and
  returns the status it leaves in \<^verbatim>\<open>*status\<close>, which is also its return value.
  \<^item> \<open>fits_get_img_param\<close> is called with \<^verbatim>\<open>maxdim\<close> and returns
    \<open>(bitpix, naxis, naxes[0], naxes[1])\<close>, the array having been \<open>{1,1}\<close> before;
  \<^item> \<open>fits_read_pix\<close> is called with the number of samples (always as \<^verbatim>\<open>TFLOAT\<close>, from
    pixel \<open>{1,1}\<close>) and returns the bytes of the buffer it filled;
  \<^item> \<open>fits_write_pix\<close> is called with the number of samples and the buffer's bytes;
  \<^item> \<open>fits_update_key\<close> is called with the keyword and the typed value;
  \<^item> \<open>remove_file\<close> is the C library's \<^verbatim>\<open>remove\<close>, \<open>fopen_r\<close> tells whether
    \<^verbatim>\<open>fopen(filename, "r")\<close> gives a stream, \<open>malloc_ok\<close> and \<open>enif_alloc_binary_ok\<close>
    whether an allocation of that many bytes succeeds.
  The handle \<^verbatim>\<open>fptr\<close> is part of the world: each entry point holds one handle at a time.
\<close>

datatype iomode = READONLY | READWRITE

datatype keyvalue = TLONG int | TDOUBLE "64 word" | TSTRING string

record 'w fitsio =
  fits_open_file :: "byte list \<Rightarrow> iomode \<Rightarrow> int \<Rightarrow> 'w \<Rightarrow> int \<times> 'w"
  fits_create_file :: "byte list \<Rightarrow> int \<Rightarrow> 'w \<Rightarrow> int \<times> 'w"
  fits_close_file :: "int \<Rightarrow> 'w \<Rightarrow> int \<times> 'w"
  fits_get_img_param :: "nat \<Rightarrow> int \<Rightarrow> 'w \<Rightarrow> ((int \<times> int \<times> int \<times> int) \<times> int) \<times> 'w"
  fits_create_img :: "int \<Rightarrow> int \<Rightarrow> int list \<Rightarrow> int \<Rightarrow> 'w \<Rightarrow> int \<times> 'w"
  fits_read_pix :: "int \<Rightarrow> int \<Rightarrow> 'w \<Rightarrow> (byte list \<times> int) \<times> 'w"
  fits_write_pix :: "int \<Rightarrow> byte list \<Rightarrow> int \<Rightarrow> 'w \<Rightarrow> int \<times> 'w"
  fits_movabs_hdu :: "int \<Rightarrow> int \<Rightarrow> 'w \<Rightarrow> int \<times> 'w"
  fits_update_key :: "string \<Rightarrow> keyvalue \<Rightarrow> int \<Rightarrow> 'w \<Rightarrow> int \<times> 'w"
  remove_file :: "byte list \<Rightarrow> 'w \<Rightarrow> 'w"
  fopen_r :: "byte list \<Rightarrow> 'w \<Rightarrow> bool"
  malloc_ok :: "nat \<Rightarrow> 'w \<Rightarrow> bool"
  enif_alloc_binary_ok :: "nat \<Rightarrow> 'w \<Rightarrow> bool"

text \<open>The calls made on the world, in order (a ghost trace: the C code keeps no such
  list), and the lines written to \<^verbatim>\<open>stderr\<close>, one constructor per message.\<close>

datatype call =
    Remove "byte list"
  | Fopen "byte list"
  | Open_file "byte list" iomode
  | Create_file "byte list"
  | Close_file
  | Get_img_param
  | Create_img int int "int list"
  | Read_pix int
  | Write_pix int "byte list"
  | Movabs_hdu int
  | Update_key string keyvalue

datatype log =
    Key_error string keyvalue int
  | Key_warning string
  | Debug_float_data string "byte list"
  | Mismatch_msg int int nat
  | Creating_msg "byte list" int int int
  | Malloc_msg
  | Create_error_msg int
  | Image_error_msg int
  | Writing_msg int
  | Write_error_msg int
  | Header_msg
  | Skip_msg string
  | Update_msg string keyvalue
  | Update_warning string int
  | Close_error_msg int
  | Success_msg "byte list"

record 'w state =
  world :: 'w
  calls :: "call list"
  stderr :: "log list"

definition invoke :: "call \<Rightarrow> ('w \<Rightarrow> 'a \<times> 'w) \<Rightarrow> 'w state \<Rightarrow> 'a \<times> 'w state" where
  "invoke c f s = (case f (world s) of (r, w) \<Rightarrow> (r, s\<lparr>world := w, calls := calls s @ [c]\<rparr>))"

definition fprintf :: "log \<Rightarrow> 'w state \<Rightarrow> 'w state" where
  "fprintf l s = s\<lparr>stderr := stderr s @ [l]\<rparr>"

definition close_file :: "'w fitsio \<Rightarrow> int \<Rightarrow> 'w state \<Rightarrow> int \<times> 'w state" where
  "close_file L status s = invoke Close_file (fits_close_file L status) s"

definition update_key :: "'w fitsio \<Rightarrow> string \<Rightarrow> keyvalue \<Rightarrow> 'w state \<Rightarrow> int \<times> 'w state" where
  "update_key L key v s = invoke (Update_key key v) (fits_update_key L key v 0) s"

section \<open>Image size arithmetic\<close>

text \<open>\<^verbatim>\<open>width\<close> and \<^verbatim>\<open>height\<close> are \<^verbatim>\<open>long\<close> (64 bits), \<^verbatim>\<open>sizeof(float)\<close> is a
  \<^verbatim>\<open>size_t\<close>: \<^verbatim>\<open>width * height\<close> is a 64-bit product (two's complement on overflow, as
  compilers emit it), converted to unsigned and multiplied by 4 modulo \<open>2 ^ 64\<close>.\<close>

definition npixels_of :: "int \<Rightarrow> int \<Rightarrow> int" where
  "npixels_of width height = sint (word_of_int width * word_of_int height :: 64 word)"

definition nbytes_of :: "int \<Rightarrow> int \<Rightarrow> nat" where
  "nbytes_of width height = unat ((word_of_int width * word_of_int height :: 64 word) * 4)"

text \<open>The test \<^verbatim>\<open>width * height * sizeof(float) != bin_data.size\<close>.\<close>

definition dimensions_mismatch :: "int \<Rightarrow> int \<Rightarrow> byte list \<Rightarrow> bool" where
  "dimensions_mismatch width height bin_data = (nbytes_of width height \<noteq> length bin_data)"

section \<open>\<^verbatim>\<open>read_image\<close> and \<^verbatim>\<open>write_image\<close>\<close>

text \<open>\<^verbatim>\<open>read_image\<close>, \<^verbatim>\<open>exfits_nif.c\<close> lines 26-79. The test of line 42 reads \<^verbatim>\<open>naxis\<close>
  only when the status is 0. The result of \<^verbatim>\<open>malloc\<close> (line 47) is not tested by the code;
  the model takes the buffer as given to the library.\<close>

definition read_image :: "'w fitsio \<Rightarrow> eterm \<Rightarrow> 'w state \<Rightarrow> nif_ret \<times> 'w state" where
  "read_image L arg0 s =
     (case enif_inspect_binary arg0 of
        None \<Rightarrow> (Badarg, s)
      | Some bin_filename \<Rightarrow>
        if length bin_filename \<ge> FILENAME_SIZE then (Badarg, s)
        else
          let filename = c_path bin_filename in
          case invoke (Open_file filename READONLY) (fits_open_file L filename READONLY 0) s of
            (status, s1) \<Rightarrow>
          if status \<noteq> 0 then (error_int status, s1)
          else
            case invoke Get_img_param (fits_get_img_param L 2 status) s1 of
              (((bitpix, naxis, naxes0, naxes1), status), s2) \<Rightarrow>
            if status \<noteq> 0 \<or> naxis \<noteq> 2 then
              (case close_file L status s2 of (status, s3) \<Rightarrow> (error_int status, s3))
            else
              let npixels = npixels_of naxes0 naxes1 in
              case invoke (Read_pix npixels) (fits_read_pix L npixels status) s2 of
                ((pixels, status), s3) \<Rightarrow>
              case close_file L status s3 of
                (status, s4) \<Rightarrow>
              if status \<noteq> 0 then (error_int status, s4)
              else if \<not> enif_alloc_binary_ok L (nbytes_of naxes0 naxes1) (world s4)
                then (Ret (Atom ''error''), s4)
              else
                (Ret (Tuple [Atom ''ok'',
                   Tuple [Integer naxes0, Integer naxes1, Binary pixels]]), s4))"

text \<open>\<^verbatim>\<open>write_image\<close> after its arguments are decoded and the size test has passed
  (lines 124-151).\<close>

definition write_image_file ::
  "'w fitsio \<Rightarrow> byte list \<Rightarrow> byte list \<Rightarrow> int \<Rightarrow> int \<Rightarrow> int \<Rightarrow> 'w state \<Rightarrow> nif_ret \<times> 'w state" where
  "write_image_file L filename bin_data width height bitpix s =
     (case invoke (Create_file filename) (fits_create_file L filename 0) s of
        (status, s1) \<Rightarrow>
      if status \<noteq> 0 then (error_int status, s1)
      else
        case invoke (Create_img bitpix 2 [width, height])
               (fits_create_img L bitpix 2 [width, height] status) s1 of
          (status, s2) \<Rightarrow>
        if status \<noteq> 0 then
          (case close_file L status s2 of (status, s3) \<Rightarrow> (error_int status, s3))
        else
          let npixels = npixels_of width height in
          case invoke (Write_pix npixels bin_data) (fits_write_pix L npixels bin_data status) s2 of
            (status, s3) \<Rightarrow>
          if status \<noteq> 0 then
            (case close_file L status s3 of (status, s4) \<Rightarrow> (error_int status, s4))
          else
            case close_file L status s3 of
              (status, s4) \<Rightarrow>
            if status \<noteq> 0 then (error_int status, s4) else (ok, s4))"

text \<open>\<^verbatim>\<open>write_image\<close>, \<^verbatim>\<open>exfits_nif.c\<close> lines 81-122: the arguments, then the size test.\<close>

definition write_image :: "'w fitsio \<Rightarrow> eterm list \<Rightarrow> 'w state \<Rightarrow> nif_ret \<times> 'w state" where
  "write_image L argv s =
     (if length argv < 4 \<or> length argv > 5 then (Badarg, s)
      else
        case enif_inspect_binary (argv ! 0) of
          None \<Rightarrow> (Badarg, s)
        | Some bin_filename \<Rightarrow>
        if length bin_filename \<ge> FILENAME_SIZE then (Badarg, s)
        else
          case enif_inspect_binary (argv ! 1) of
            None \<Rightarrow> (Badarg, s)
          | Some bin_data \<Rightarrow>
          case enif_get_long (argv ! 2) of
            None \<Rightarrow> (Badarg, s)
          | Some width \<Rightarrow>
          case enif_get_long (argv ! 3) of
            None \<Rightarrow> (Badarg, s)
          | Some height \<Rightarrow>
          case (if length argv = 5 then enif_get_int (argv ! 4) else Some FLOAT_IMG) of
            None \<Rightarrow> (Badarg, s)
          | Some bitpix \<Rightarrow>
          if dimensions_mismatch width height bin_data
          then (error_atom ''dimensions_mismatch'', s)
          else write_image_file L (c_path bin_filename) bin_data width height bitpix s)"

section \<open>Header updates\<close>

definition skip_keys :: "string list" where
  "skip_keys = [''SIMPLE'', ''BITPIX'', ''NAXIS'', ''NAXIS1'', ''NAXIS2'', ''NAXIS3'', ''END'']"

text \<open>One pass of the loop body of \<^verbatim>\<open>write_header_cards\<close> (lines 313-385) on the entry the
  iterator is at. The flag is \<open>False\<close> when the body left by \<^verbatim>\<open>continue\<close>.\<close>

definition header_card :: "'w fitsio \<Rightarrow> eterm \<times> eterm \<Rightarrow> 'w state \<Rightarrow> bool \<times> 'w state" where
  "header_card L kv s =
     (case kv of (key, val) \<Rightarrow>
      case enif_get_atom key FLEN_KEYWORD of
        None \<Rightarrow> (False, s)
      | Some key_buf \<Rightarrow>
        let key_str = c_str key_buf in
        if key_str \<in> set skip_keys then (False, s)
        else
          case
            (if enif_is_number val then
               (case enif_get_long val of
                  Some ival \<Rightarrow>
                    (case update_key L key_str (TLONG ival) s of
                       (key_status, s1) \<Rightarrow>
                         (key_status,
                          if key_status \<noteq> 0
                          then fprintf (Key_error key_str (TLONG ival) key_status) s1 else s1))
                | None \<Rightarrow>
                    (case enif_get_double val of
                       Some dval \<Rightarrow>
                         (case update_key L key_str (TDOUBLE dval) s of
                            (key_status, s1) \<Rightarrow>
                              (key_status,
                               if key_status \<noteq> 0
                               then fprintf (Key_error key_str (TDOUBLE dval) key_status) s1
                               else s1))
                     | None \<Rightarrow> (0, s)))
             else if enif_is_binary val \<or> enif_is_list val then
               (case enif_get_string val FLEN_VALUE of
                  (n, value_buf) \<Rightarrow>
                    if n > 0 then
                      (let value_str = c_str value_buf in
                       case update_key L key_str (TSTRING value_str) s of
                         (key_status, s1) \<Rightarrow>
                           (key_status,
                            if key_status \<noteq> 0
                            then fprintf (Key_error key_str (TSTRING value_str) key_status) s1
                            else s1))
                    else (0, s))
             else (0, s))
          of (key_status, s2) \<Rightarrow>
            (True, if key_status > 0 then fprintf (Key_warning key_str) s2 else s2))"

text \<open>The \<^verbatim>\<open>do ... while (enif_map_iterator_next(...))\<close> loop over the entries left.
  \<open>status\<close> is the function's main status, which the body never assigns; the
  \<^verbatim>\<open>break\<close> on \<^verbatim>\<open>status > 0\<close> stands at the end of the body.\<close>

fun header_cards_loop :: "'w fitsio \<Rightarrow> int \<Rightarrow> (eterm \<times> eterm) list \<Rightarrow> 'w state \<Rightarrow> 'w state" where
  "header_cards_loop L status [] s = s"
| "header_cards_loop L status (kv # es) s =
     (case header_card L kv s of
        (at_end, s1) \<Rightarrow>
          if at_end \<and> status > 0 then s1 else header_cards_loop L status es s1)"

text \<open>\<^verbatim>\<open>write_header_cards\<close>, \<^verbatim>\<open>exfits_nif.c\<close> lines 253-397. The NIF table gives it two
  arguments.\<close>

definition write_header_cards ::
  "'w fitsio \<Rightarrow> eterm \<Rightarrow> eterm \<Rightarrow> 'w state \<Rightarrow> nif_ret \<times> 'w state" where
  "write_header_cards L arg0 arg1 s =
     (case enif_inspect_binary arg0 of
        None \<Rightarrow> (Badarg, s)
      | Some bin_filename \<Rightarrow>
        if length bin_filename \<ge> FILENAME_SIZE then (Badarg, s)
        else if \<not> enif_is_map arg1 then (Badarg, s)
        else
          let filename = c_path bin_filename in
          case invoke (Fopen filename) (\<lambda>w. (fopen_r L filename w, w)) s of
            (f, s0) \<Rightarrow>
          if \<not> f then (error_atom ''file_not_found'', s0)
          else
            case invoke (Open_file filename READWRITE) (fits_open_file L filename READWRITE 0) s0 of
              (status, s1) \<Rightarrow>
            if status \<noteq> 0 then (error_int status, s1)
            else
              case invoke (Movabs_hdu 1) (fits_movabs_hdu L 1 status) s1 of
                (status, s2) \<Rightarrow>
              if status \<noteq> 0 then
                (case close_file L status s2 of (status, s3) \<Rightarrow> (error_int status, s3))
              else
                case enif_get_map_size arg1 of
                  None \<Rightarrow> (case close_file L status s2 of (status, s3) \<Rightarrow> (Badarg, s3))
                | Some map_size \<Rightarrow>
                case enif_map_iterator_create arg1 of
                  None \<Rightarrow> (case close_file L status s2 of (status, s3) \<Rightarrow> (Badarg, s3))
                | Some iter \<Rightarrow>
                case close_file L status (header_cards_loop L status iter s2) of
                  (status, s4) \<Rightarrow>
                if status \<noteq> 0 then (error_int status, s4) else (ok, s4))"

section \<open>\<^verbatim>\<open>write_fits_file\<close>\<close>

text \<open>The loop body of lines 237-291.\<close>

definition header_key :: "'w fitsio \<Rightarrow> eterm \<times> eterm \<Rightarrow> 'w state \<Rightarrow> 'w state" where
  "header_key L kv s =
     (case kv of (key, val) \<Rightarrow>
      case enif_get_atom key FLEN_KEYWORD of
        None \<Rightarrow> s
      | Some key_buf \<Rightarrow>
        let key_str = c_str key_buf in
        if key_str \<in> set skip_keys then fprintf (Skip_msg key_str) s
        else
          case
            (if enif_is_number val then
               (case enif_get_long val of
                  Some ival \<Rightarrow>
                    update_key L key_str (TLONG ival) (fprintf (Update_msg key_str (TLONG ival)) s)
                | None \<Rightarrow>
                    (case enif_get_double val of
                       Some dval \<Rightarrow>
                         update_key L key_str (TDOUBLE dval)
                           (fprintf (Update_msg key_str (TDOUBLE dval)) s)
                     | None \<Rightarrow> (0, s)))
             else if enif_is_binary val \<or> enif_is_list val then
               (case enif_get_string val FLEN_VALUE of
                  (n, value_buf) \<Rightarrow>
                    if n > 0 then
                      (let value_str = c_str value_buf in
                       update_key L key_str (TSTRING value_str)
                         (fprintf (Update_msg key_str (TSTRING value_str)) s))
                    else (0, s))
             else (0, s))
          of (key_status, s1) \<Rightarrow>
            if key_status \<noteq> 0 then fprintf (Update_warning key_str key_status) s1 else s1)"

fun header_keys_loop :: "'w fitsio \<Rightarrow> (eterm \<times> eterm) list \<Rightarrow> 'w state \<Rightarrow> 'w state" where
  "header_keys_loop L [] s = s"
| "header_keys_loop L (kv # es) s = header_keys_loop L es (header_key L kv s)"

text \<open>Lines 175-307: from \<^verbatim>\<open>remove(filename)\<close> to the end. \<open>header\<close> is the sixth
  argument when there is one (\<^verbatim>\<open>has_header\<close>).\<close>

definition write_fits_body ::
  "'w fitsio \<Rightarrow> byte list \<Rightarrow> byte list \<Rightarrow> int \<Rightarrow> int \<Rightarrow> int \<Rightarrow> eterm option \<Rightarrow> 'w state
     \<Rightarrow> nif_ret \<times> 'w state" where
  "write_fits_body L filename pixels width height bitpix header s =
     (case invoke (Remove filename) (\<lambda>w. ((), remove_file L filename w)) s of
        (u, s0) \<Rightarrow>
      case invoke (Create_file filename) (fits_create_file L filename 0) s0 of
        (status, s1) \<Rightarrow>
      if status \<noteq> 0 then (error_int status, fprintf (Create_error_msg status) s1)
      else
        case invoke (Create_img bitpix 2 [width, height])
               (fits_create_img L bitpix 2 [width, height] status) s1 of
          (status, s2) \<Rightarrow>
        if status \<noteq> 0 then
          (case close_file L status (fprintf (Image_error_msg status) s2) of
             (status, s3) \<Rightarrow> (error_int status, s3))
        else
          let npixels = npixels_of width height in
          case invoke (Write_pix npixels pixels) (fits_write_pix L npixels pixels status)
                 (fprintf (Writing_msg npixels) s2) of
            (status, s3) \<Rightarrow>
          if status \<noteq> 0 then
            (case close_file L status (fprintf (Write_error_msg status) s3) of
               (status, s4) \<Rightarrow> (error_int status, s4))
          else
            case
              (case header of
                 None \<Rightarrow> Some s3
               | Some header_map \<Rightarrow>
                   (case enif_map_iterator_create header_map of
                      None \<Rightarrow> None
                    | Some iter \<Rightarrow> Some (header_keys_loop L iter (fprintf Header_msg s3))))
            of
              None \<Rightarrow> (case close_file L status s3 of (status, s4) \<Rightarrow> (Badarg, s4))
            | Some s4 \<Rightarrow>
              case close_file L status s4 of
                (status, s5) \<Rightarrow>
              if status \<noteq> 0 then (error_int status, fprintf (Close_error_msg status) s5)
              else (ok, fprintf (Success_msg filename) s5))"

text \<open>\<^verbatim>\<open>write_fits_file\<close>, \<^verbatim>\<open>write_fits.c\<close> lines 98-173: the arguments, the dump of the
  buffer by \<^verbatim>\<open>debug_float_data\<close> (one line of the log here), the size test, the copy of
  the buffer.\<close>

definition write_fits_file :: "'w fitsio \<Rightarrow> eterm list \<Rightarrow> 'w state \<Rightarrow> nif_ret \<times> 'w state" where
  "write_fits_file L argv s =
     (if length argv < 4 \<or> length argv > 6 then (Badarg, s)
      else
        case enif_inspect_binary (argv ! 0) of
          None \<Rightarrow> (Badarg, s)
        | Some bin_filename \<Rightarrow>
        if length bin_filename \<ge> FILENAME_SIZE then (Badarg, s)
        else
          case enif_inspect_binary (argv ! 1) of
            None \<Rightarrow> (Badarg, s)
          | Some bin_data \<Rightarrow>
          let filename = c_path bin_filename;
              s0 = fprintf (Debug_float_data ''input data'' bin_data) s in
          case enif_get_long (argv ! 2) of
            None \<Rightarrow> (Badarg, s0)
          | Some width \<Rightarrow>
          case enif_get_long (argv ! 3) of
            None \<Rightarrow> (Badarg, s0)
          | Some height \<Rightarrow>
          case (if length argv \<ge> 5 then enif_get_int (argv ! 4) else Some FLOAT_IMG) of
            None \<Rightarrow> (Badarg, s0)
          | Some bitpix \<Rightarrow>
          if length argv = 6 \<and> \<not> enif_is_map (argv ! 5) then (Badarg, s0)
          else
            let header = (if length argv = 6 then Some (argv ! 5) else None) in
            if dimensions_mismatch width height bin_data then
              (error_atom ''dimensions_mismatch'',
               fprintf (Mismatch_msg width height (length bin_data)) s0)
            else
              let s1 = fprintf (Creating_msg filename width height bitpix) s0 in
              if \<not> malloc_ok L (length bin_data) (world s1) then
                (error_atom ''memory_allocation_failure'', fprintf Malloc_msg s1)
              else
                write_fits_body L filename bin_data width height bitpix header
                  (fprintf (Debug_float_data ''copied data'' bin_data) s1))"

section \<open>The update an entry asks for\<close>

text \<open>
  A reading of one map entry on its own, used to state what the two loops do: the keyword
  and typed value that the entry leads to, or \<open>None\<close> when the entry leads to no update.
  The loops are proved below to issue exactly these updates, in the iterator's order.
\<close>

definition planned_update :: "eterm \<times> eterm \<Rightarrow> (string \<times> keyvalue) option" where
  "planned_update kv =
     (case kv of (key, val) \<Rightarrow>
      case enif_get_atom key FLEN_KEYWORD of
        None \<Rightarrow> None
      | Some a \<Rightarrow>
          if c_str a \<in> set skip_keys then None
          else
            (case val of
               Integer n \<Rightarrow>
                 if LONG_MIN \<le> n \<and> n \<le> LONG_MAX then Some (c_str a, TLONG n) else None
             | Float d \<Rightarrow> Some (c_str a, TDOUBLE d)
             | List ts \<Rightarrow>
                 (case latin1_chars ts of
                    None \<Rightarrow> None
                  | Some cs \<Rightarrow>
                      if length cs < FLEN_VALUE then Some (c_str a, TSTRING (c_str cs))
                      else None)
             | _ \<Rightarrow> None))"

definition update_calls :: "(eterm \<times> eterm) list \<Rightarrow> call list" where
  "update_calls es = map (\<lambda>(k, v). Update_key k v) (List.map_filter planned_update es)"

text \<open>Two states with the same world and the same calls: they differ in what was
  printed at most.\<close>

definition same_effects :: "'w state \<Rightarrow> 'w state \<Rightarrow> bool" where
  "same_effects s t = (world s = world t \<and> calls s = calls t)"

section \<open>A small file system with a FITS library, for running the model\<close>

text \<open>
  The theorems stated for a library \<open>L\<close> hold for every library. To run the entry
  points on concrete arguments a library is needed; this one keeps the documented behaviour of CFITSIO that
  the entry points depend on:
  \<^item> every function but \<^verbatim>\<open>fits_close_file\<close> returns at once, with the status unchanged,
    when it is called with a positive status;
  \<^item> \<^verbatim>\<open>fits_create_file\<close> refuses a name that exists (status 105) and
    \<^verbatim>\<open>fits_open_file\<close> a name that does not (status 104);
  \<^item> \<^verbatim>\<open>fits_create_img\<close> refuses an unknown \<^verbatim>\<open>BITPIX\<close> (211) and a negative axis (213);
  \<^item> \<^verbatim>\<open>fits_update_key\<close> refuses a file opened read-only (112) and a keyword or a text
    with a character outside the printable ASCII range (207);
  \<^item> keyword names are matched without regard to case and written in upper case:
    \<^verbatim>\<open>fits_update_key\<close> converts the name it is given, so \<^verbatim>\<open>naxis1\<close> names the card
    \<^verbatim>\<open>NAXIS1\<close>.
  A file is the image of its primary HDU, if it has one yet: the fields \<open>hdu_bitpix\<close>
  and \<open>hdu_naxes\<close> are its cards \<^verbatim>\<open>BITPIX\<close>, \<^verbatim>\<open>NAXIS1\<close>, \<^verbatim>\<open>NAXIS2\<close>, ..., and
  \<open>hdu_keys\<close> the other cards. Samples are kept as the four bytes of the \<^verbatim>\<open>float\<close>
  handed over; the conversion to other values of \<^verbatim>\<open>BITPIX\<close> is not modelled.
\<close>

record fits_hdu =
  hdu_bitpix :: int
  hdu_naxes :: "int list"
  hdu_pixels :: "byte list"
  hdu_keys :: "(string \<times> keyvalue) list"

record disk =
  files :: "(byte list \<times> fits_hdu option) list"
  fptr :: "(byte list \<times> iomode) option"

definition bytes_of :: "string \<Rightarrow> byte list" where
  "bytes_of s = map of_char s"

definition printable :: "string \<Rightarrow> bool" where
  "printable s = list_all (\<lambda>c. 32 \<le> (of_char c :: nat) \<and> (of_char c :: nat) \<le> 126) s"

definition current_hdu :: "disk \<Rightarrow> fits_hdu option" where
  "current_hdu d =
     (case fptr d of
        None \<Rightarrow> None
      | Some (name, mode) \<Rightarrow> (case map_of (files d) name of Some (Some h) \<Rightarrow> Some h | _ \<Rightarrow> None))"

definition set_hdu :: "fits_hdu \<Rightarrow> disk \<Rightarrow> disk" where
  "set_hdu h d =
     (case fptr d of
        None \<Rightarrow> d
      | Some (name, mode) \<Rightarrow>
          d\<lparr>files := map (\<lambda>(n, f). if n = name then (n, Some h) else (n, f)) (files d)\<rparr>)"

definition ref_open_file :: "byte list \<Rightarrow> iomode \<Rightarrow> int \<Rightarrow> disk \<Rightarrow> int \<times> disk" where
  "ref_open_file name mode status d =
     (if status > 0 then (status, d)
      else case map_of (files d) name of
             None \<Rightarrow> (104, d)
           | Some f \<Rightarrow> (0, d\<lparr>fptr := Some (name, mode)\<rparr>))"

definition ref_create_file :: "byte list \<Rightarrow> int \<Rightarrow> disk \<Rightarrow> int \<times> disk" where
  "ref_create_file name status d =
     (if status > 0 then (status, d)
      else case map_of (files d) name of
             Some f \<Rightarrow> (105, d)
           | None \<Rightarrow> (0, d\<lparr>files := (name, None) # files d, fptr := Some (name, READWRITE)\<rparr>))"

definition ref_close_file :: "int \<Rightarrow> disk \<Rightarrow> int \<times> disk" where
  "ref_close_file status d = (status, d\<lparr>fptr := None\<rparr>)"

definition ref_get_img_param ::
  "nat \<Rightarrow> int \<Rightarrow> disk \<Rightarrow> ((int \<times> int \<times> int \<times> int) \<times> int) \<times> disk" where
  "ref_get_img_param maxdim status d =
     (if status > 0 then (((0, 0, 1, 1), status), d)
      else case current_hdu d of
             None \<Rightarrow> (((0, 0, 1, 1), 233), d)
           | Some h \<Rightarrow>
               (((hdu_bitpix h, int (length (hdu_naxes h)),
                  (if 0 < length (hdu_naxes h) \<and> 0 < maxdim then hdu_naxes h ! 0 else 1),
                  (if 1 < length (hdu_naxes h) \<and> 1 < maxdim then hdu_naxes h ! 1 else 1)), 0), d))"

definition ref_create_img :: "int \<Rightarrow> int \<Rightarrow> int list \<Rightarrow> int \<Rightarrow> disk \<Rightarrow> int \<times> disk" where
  "ref_create_img bitpix naxis naxes status d =
     (if status > 0 then (status, d)
      else if bitpix \<notin> set [8, 16, 32, 64, - 32, - 64] then (211, d)
      else if naxis < 0 \<or> naxis > 999 then (212, d)
      else if list_ex (\<lambda>n. n < 0) (take (nat naxis) naxes) then (213, d)
      else (0, set_hdu \<lparr>hdu_bitpix = bitpix, hdu_naxes = take (nat naxis) naxes,
                        hdu_pixels = [], hdu_keys = []\<rparr> d))"

definition ref_write_pix :: "int \<Rightarrow> byte list \<Rightarrow> int \<Rightarrow> disk \<Rightarrow> int \<times> disk" where
  "ref_write_pix nelem buf status d =
     (if status > 0 then (status, d)
      else case current_hdu d of
             None \<Rightarrow> (233, d)
           | Some h \<Rightarrow>
               if nelem < 0 \<or> length buf < 4 * nat nelem then (106, d)
               else (0, set_hdu (h\<lparr>hdu_pixels := take (4 * nat nelem) buf\<rparr>) d))"

definition ref_read_pix :: "int \<Rightarrow> int \<Rightarrow> disk \<Rightarrow> (byte list \<times> int) \<times> disk" where
  "ref_read_pix nelem status d =
     (if status > 0 then (([], status), d)
      else case current_hdu d of
             None \<Rightarrow> (([], 233), d)
           | Some h \<Rightarrow>
               if nelem < 0 \<or> length (hdu_pixels h) < 4 * nat nelem then (([], 108), d)
               else ((take (4 * nat nelem) (hdu_pixels h), 0), d))"

definition ref_movabs_hdu :: "int \<Rightarrow> int \<Rightarrow> disk \<Rightarrow> int \<times> disk" where
  "ref_movabs_hdu n status d =
     (if status > 0 then (status, d) else if n = 1 then (0, d) else (301, d))"

definition toupper :: "char \<Rightarrow> char" where
  "toupper c =
     (if 97 \<le> (of_char c :: nat) \<and> (of_char c :: nat) \<le> 122
      then char_of ((of_char c :: nat) - 32) else c)"

text \<open>Writing the card \<open>k\<close> (a name in upper case) of an image.\<close>

definition put_card :: "string \<Rightarrow> keyvalue \<Rightarrow> fits_hdu \<Rightarrow> fits_hdu" where
  "put_card k v h =
     (case v of
        TLONG n \<Rightarrow>
          if k = ''BITPIX'' then h\<lparr>hdu_bitpix := n\<rparr>
          else if k = ''NAXIS1'' \<and> 0 < length (hdu_naxes h)
            then h\<lparr>hdu_naxes := (hdu_naxes h)[0 := n]\<rparr>
          else if k = ''NAXIS2'' \<and> 1 < length (hdu_naxes h)
            then h\<lparr>hdu_naxes := (hdu_naxes h)[1 := n]\<rparr>
          else h\<lparr>hdu_keys := (k, v) # filter (\<lambda>(k', x). k' \<noteq> k) (hdu_keys h)\<rparr>
      | _ \<Rightarrow> h\<lparr>hdu_keys := (k, v) # filter (\<lambda>(k', x). k' \<noteq> k) (hdu_keys h)\<rparr>)"

definition ref_update_key :: "string \<Rightarrow> keyvalue \<Rightarrow> int \<Rightarrow> disk \<Rightarrow> int \<times> disk" where
  "ref_update_key key v status d =
     (if status > 0 then (status, d)
      else case fptr d of
             None \<Rightarrow> (114, d)
           | Some (name, mode) \<Rightarrow>
               if mode = READONLY then (112, d)
               else if \<not> printable key \<or> (case v of TSTRING t \<Rightarrow> \<not> printable t | _ \<Rightarrow> False)
               then (207, d)
               else case current_hdu d of
                      None \<Rightarrow> (233, d)
                    | Some h \<Rightarrow> (0, set_hdu (put_card (map toupper key) v h) d))"

definition ref_remove :: "byte list \<Rightarrow> disk \<Rightarrow> disk" where
  "ref_remove name d = d\<lparr>files := filter (\<lambda>(n, f). n \<noteq> name) (files d)\<rparr>"

definition ref_fitsio :: "disk fitsio" where
  "ref_fitsio =
     \<lparr>fits_open_file = ref_open_file,
      fits_create_file = ref_create_file,
      fits_close_file = ref_close_file,
      fits_get_img_param = ref_get_img_param,
      fits_create_img = ref_create_img,
      fits_read_pix = ref_read_pix,
      fits_write_pix = ref_write_pix,
      fits_movabs_hdu = ref_movabs_hdu,
      fits_update_key = ref_update_key,
      remove_file = ref_remove,
      fopen_r = (\<lambda>name d. map_of (files d) name \<noteq> None),
      malloc_ok = (\<lambda>n d. True),
      enif_alloc_binary_ok = (\<lambda>n d. True)\<rparr>"

definition start :: "(byte list \<times> fits_hdu option) list \<Rightarrow> disk state" where
  "start fs = \<lparr>world = \<lparr>files = fs, fptr = None\<rparr>, calls = [], stderr = []\<rparr>"

text \<open>A file name and a one-pixel image used in the concrete runs below.\<close>

abbreviation a_fits :: "byte list" where "a_fits \<equiv> bytes_of ''a.fits''"

abbreviation blank_image :: "int list \<Rightarrow> fits_hdu" where
  "blank_image naxes \<equiv>
     \<lparr>hdu_bitpix = - 32, hdu_naxes = naxes, hdu_pixels = [0, 0, 0, 0], hdu_keys = []\<rparr>"

section \<open>The updates the header loops issue\<close>

text \<open>Both loop bodies issue the update the entry asks for and no other call; by induction
  on the entries, so do the loops.\<close>

lemma header_card_calls:
  "calls (snd (header_card L kv s)) = calls s @ update_calls [kv]"
  by (cases kv)
     (auto simp: header_card_def planned_update_def update_calls_def List.map_filter_simps
        update_key_def invoke_def fprintf_def
        enif_is_number_def enif_get_long_def enif_get_double_def enif_is_binary_def enif_is_list_def
        enif_get_string_def Let_def
        split: option.splits eterm.splits prod.splits if_splits)

lemma header_key_calls:
  "calls (header_key L kv s) = calls s @ update_calls [kv]"
  by (cases kv)
     (auto simp: header_key_def planned_update_def update_calls_def List.map_filter_simps
        update_key_def invoke_def fprintf_def
        enif_is_number_def enif_get_long_def enif_get_double_def enif_is_binary_def enif_is_list_def
        enif_get_string_def Let_def
        split: option.splits eterm.splits prod.splits if_splits)

lemma update_calls_Nil: "update_calls [] = []"
  by (simp add: update_calls_def List.map_filter_simps)

lemma update_calls_Cons: "update_calls (kv # es) = update_calls [kv] @ update_calls es"
  by (simp add: update_calls_def List.map_filter_simps split: option.splits)

lemma update_calls_append: "update_calls (es1 @ es2) = update_calls es1 @ update_calls es2"
  by (simp add: update_calls_def List.map_filter_def)

lemma header_cards_loop_calls:
  "status \<le> 0 \<Longrightarrow> calls (header_cards_loop L status es s) = calls s @ update_calls es"
proof (induction es arbitrary: s)
  case Nil
  then show ?case by (simp add: update_calls_Nil)
next
  case (Cons kv es)
  obtain b s1 where h: "header_card L kv s = (b, s1)" by (cases "header_card L kv s")
  have "calls s1 = calls s @ update_calls [kv]"
    using header_card_calls [of L kv s] h by simp
  with Cons h show ?case
    by (simp add: update_calls_Cons [of kv es])
qed

lemma header_keys_loop_calls:
  "calls (header_keys_loop L es s) = calls s @ update_calls es"
proof (induction es arbitrary: s)
  case Nil
  then show ?case by (simp add: update_calls_Nil)
next
  case (Cons kv es)
  then show ?case
    by (simp add: header_key_calls update_calls_Cons [of kv es])
qed

lemma header_cards_loop_append:
  "status \<le> 0 \<Longrightarrow> header_cards_loop L status (es1 @ es2) s =
     header_cards_loop L status es2 (header_cards_loop L status es1 s)"
  by (induction es1 arbitrary: s) (auto split: prod.splits)

lemma header_keys_loop_append:
  "header_keys_loop L (es1 @ es2) s = header_keys_loop L es2 (header_keys_loop L es1 s)"
  by (induction es1 arbitrary: s) auto

lemma planned_update_not_structural:
  "planned_update kv = Some (k, v) \<Longrightarrow> k \<notin> set skip_keys"
  by (cases kv) (auto simp: planned_update_def split: option.splits if_splits eterm.splits)

lemma update_calls_not_structural:
  "Update_key k v \<in> set (update_calls es) \<Longrightarrow> k \<notin> set skip_keys"
  by (auto simp: update_calls_def List.map_filter_def dest: planned_update_not_structural)

lemma skip_keys_c_str: "k \<in> set skip_keys \<Longrightarrow> c_str k = k \<and> length k < FLEN_KEYWORD"
  by (auto simp: skip_keys_def c_str_def FLEN_KEYWORD_def)


lemma header_key_same_effects:
  "same_effects s t \<Longrightarrow> same_effects (header_key L kv s) (header_key L kv t)"
  by (cases kv)
     (auto simp: same_effects_def header_key_def update_key_def invoke_def fprintf_def Let_def
        split: option.splits prod.splits if_splits)

lemma header_keys_loop_same_effects:
  "same_effects s t \<Longrightarrow> same_effects (header_keys_loop L es s) (header_keys_loop L es t)"
  by (induction es arbitrary: s t) (auto intro: header_key_same_effects)

lemma header_card_skipped:
  "planned_update kv = None \<Longrightarrow> snd (header_card L kv s) = s"
  by (cases kv)
     (auto simp: header_card_def planned_update_def
        enif_is_number_def enif_get_long_def enif_get_double_def enif_is_binary_def enif_is_list_def
        enif_get_string_def Let_def
        split: option.splits eterm.splits prod.splits if_splits)

lemma header_key_skipped:
  "planned_update kv = None \<Longrightarrow>
     header_key L kv s =
       (case enif_get_atom (fst kv) FLEN_KEYWORD of
          None \<Rightarrow> s
        | Some a \<Rightarrow> if c_str a \<in> set skip_keys then fprintf (Skip_msg (c_str a)) s else s)"
  by (cases kv)
     (auto simp: header_key_def planned_update_def
        enif_is_number_def enif_get_long_def enif_get_double_def enif_is_binary_def enif_is_list_def
        enif_get_string_def Let_def
        split: option.splits eterm.splits prod.splits if_splits)



section \<open>Entries that lead to no update\<close>

lemma unusable_entry_plans_nothing:
  "enif_get_atom key FLEN_KEYWORD = None \<or>
   (\<not> enif_is_number val \<and> fst (enif_get_string val FLEN_VALUE) \<le> 0) \<Longrightarrow>
     planned_update (key, val) = None"
  by (auto simp: planned_update_def enif_is_number_def enif_get_string_def
      split: option.splits eterm.splits if_splits)

lemma header_cards_loop_skip:
  assumes "planned_update kv = None"
    and "status \<le> 0"
  shows "header_cards_loop L status (es1 @ kv # es2) s = header_cards_loop L status (es1 @ es2) s"
proof -
  have "header_cards_loop L status (kv # es2) t = header_cards_loop L status es2 t" for t
    using header_card_skipped [OF assms(1), of L t] assms(2)
    by (cases "header_card L kv t") simp
  then show ?thesis
    using assms(2) by (simp add: header_cards_loop_append)
qed

section \<open>The entry points and their header stage\<close>


lemma close_file_calls: "calls (snd (close_file L st s)) = calls s @ [Close_file]"
  by (simp add: close_file_def invoke_def split: prod.splits)

lemma write_header_cards_updates:
  "Update_key k v \<in> set (calls (snd (write_header_cards L arg0 arg1 s))) \<Longrightarrow>
     Update_key k v \<in> set (calls s) \<or> Update_key k v \<in> set (update_calls (case arg1 of Map es \<Rightarrow> es | _ \<Rightarrow> []))"
  by (auto simp: write_header_cards_def enif_inspect_binary_def enif_is_map_def
      enif_get_map_size_def enif_map_iterator_create_def invoke_def Let_def close_file_def
      header_cards_loop_calls
      split: option.splits eterm.splits prod.splits if_splits)

lemma write_fits_body_updates:
  "Update_key k v \<in> set (calls (snd (write_fits_body L fn px w h bp hdr s))) \<Longrightarrow>
     Update_key k v \<in> set (calls s) \<or>
     Update_key k v \<in> set (update_calls (case hdr of Some (Map es) \<Rightarrow> es | _ \<Rightarrow> []))"
  by (auto simp: write_fits_body_def enif_map_iterator_create_def invoke_def Let_def close_file_def
      fprintf_def header_keys_loop_calls
      split: option.splits eterm.splits prod.splits if_splits)

lemma write_fits_file_updates:
  "Update_key k v \<in> set (calls (snd (write_fits_file L argv s))) \<Longrightarrow>
     Update_key k v \<in> set (calls s) \<or>
     Update_key k v \<in> set (update_calls
        (if length argv = 6 then (case argv ! 5 of Map es \<Rightarrow> es | _ \<Rightarrow> []) else []))"
  by (auto simp: write_fits_file_def Let_def fprintf_def enif_is_map_def
      dest!: write_fits_body_updates
      split: option.splits prod.splits if_splits eterm.splits)

lemma write_fits_body_cong:
  assumes "\<And>t. same_effects (header_keys_loop L es t) (header_keys_loop L es' t)"
  shows "fst (write_fits_body L fn px w h bp (Some (Map es)) s) =
         fst (write_fits_body L fn px w h bp (Some (Map es')) s) \<and>
         same_effects (snd (write_fits_body L fn px w h bp (Some (Map es)) s))
                      (snd (write_fits_body L fn px w h bp (Some (Map es')) s))"
proof -
  have w: "\<And>t. world (header_keys_loop L es t) = world (header_keys_loop L es' t)"
    and c: "\<And>t. calls (header_keys_loop L es t) = calls (header_keys_loop L es' t)"
    using assms by (simp_all add: same_effects_def)
  show ?thesis
    by (auto simp: write_fits_body_def enif_map_iterator_create_def invoke_def Let_def
        close_file_def fprintf_def same_effects_def w c split: prod.splits)
qed

lemma write_header_cards_skip:
  assumes "planned_update kv = None"
  shows "write_header_cards L arg0 (Map (es1 @ kv # es2)) s =
         write_header_cards L arg0 (Map (es1 @ es2)) s"
  by (auto simp: write_header_cards_def enif_is_map_def enif_get_map_size_def Let_def
      enif_map_iterator_create_def header_cards_loop_skip [OF assms]
      split: option.splits prod.splits)

lemma header_key_skipped_effects:
  "planned_update kv = None \<Longrightarrow> same_effects (header_key L kv s) s"
  by (simp add: header_key_skipped same_effects_def fprintf_def split: option.splits)

lemma header_keys_loop_skip:
  assumes "planned_update kv = None"
  shows "same_effects (header_keys_loop L (es1 @ kv # es2) t) (header_keys_loop L (es1 @ es2) t)"
  by (simp add: header_keys_loop_append header_keys_loop_same_effects
      header_key_skipped_effects [OF assms])

lemma write_fits_file_skip:
  assumes "planned_update kv = None"
  shows "fst (write_fits_file L [a0, a1, a2, a3, a4, Map (es1 @ kv # es2)] s) =
         fst (write_fits_file L [a0, a1, a2, a3, a4, Map (es1 @ es2)] s) \<and>
         same_effects (snd (write_fits_file L [a0, a1, a2, a3, a4, Map (es1 @ kv # es2)] s))
                      (snd (write_fits_file L [a0, a1, a2, a3, a4, Map (es1 @ es2)] s))"
proof -
  have "same_effects (header_keys_loop L (es1 @ kv # es2) t) (header_keys_loop L (es1 @ es2) t)"
    for t by (rule header_keys_loop_skip [OF assms])
  note cong = write_fits_body_cong [OF this, unfolded same_effects_def]
  show ?thesis
    by (auto simp: write_fits_file_def enif_is_map_def Let_def cong same_effects_def
        split: option.splits)
qed

section \<open>Decoding header values\<close>

lemma strtol_consumes_prefix: "\<exists>consumed. v = consumed @ snd (strtol v)"
proof (cases "takeWhile isdigit
        (if dropWhile isspace v \<noteq> [] \<and>
            (hd (dropWhile isspace v) = CHR ''-'' \<or> hd (dropWhile isspace v) = CHR ''+'')
         then tl (dropWhile isspace v) else dropWhile isspace v) = []")
  case True
  then have "snd (strtol v) = v" by (simp add: strtol_def Let_def)
  then show ?thesis by simp
next
  case False
  define s1 where "s1 = dropWhile isspace v"
  define s2 where "s2 = (if s1 \<noteq> [] \<and> (hd s1 = CHR ''-'' \<or> hd s1 = CHR ''+'') then tl s1 else s1)"
  have r: "snd (strtol v) = dropWhile isdigit s2"
    using False by (simp add: strtol_def Let_def s1_def s2_def)
  have a: "v = takeWhile isspace v @ s1" by (simp add: s1_def)
  have b: "\<exists>sign. s1 = sign @ s2"
  proof (cases "s1 \<noteq> [] \<and> (hd s1 = CHR ''-'' \<or> hd s1 = CHR ''+'')")
    case True
    then have "s1 = [hd s1] @ s2" by (simp add: s2_def)
    then show ?thesis by blast
  next
    case False
    then have "s1 = [] @ s2" by (auto simp: s2_def)
    then show ?thesis by blast
  qed
  have c: "s2 = takeWhile isdigit s2 @ dropWhile isdigit s2" by simp
  from b obtain sign where "s1 = sign @ s2" by blast
  with a c have "v = (takeWhile isspace v @ sign @ takeWhile isdigit s2) @ snd (strtol v)"
    by (simp add: r)
  then show ?thesis by blast
qed

text \<open>A text of digits is read in full: the integer branch gives its decimal value, the
  largest \<^verbatim>\<open>long\<close> when it is beyond.\<close>

lemma digits_value_nonneg: "list_all isdigit ds \<Longrightarrow> 0 \<le> digits_value ds"
proof -
  have "0 \<le> foldl (\<lambda>a c. 10 * a + (of_char c - 48)) a xs" if "0 \<le> a" "list_all isdigit xs"
    for a :: int and xs
    using that
  proof (induction xs arbitrary: a)
    case Nil
    then show ?case by simp
  next
    case (Cons x xs)
    have "(48::nat) \<le> of_char x" using Cons.prems(2) by (simp add: isdigit_def)
    then have "int 48 \<le> int (of_char x)" by (simp only: of_nat_le_iff)
    then have "(48::int) \<le> of_char x" by (simp add: of_nat_of_char)
    then have "0 \<le> 10 * a + (of_char x - 48)" using Cons.prems(1) by simp
    then show ?case using Cons.IH Cons.prems(2) by simp
  qed
  then show "list_all isdigit ds \<Longrightarrow> 0 \<le> digits_value ds"
    by (simp add: digits_value_def)
qed

lemma strtol_digits:
  assumes "list_all isdigit (c # cs)"
  shows "strtol (c # cs) = (min LONG_MAX (digits_value (c # cs)), [])"
proof -
  have c: "isdigit c" using assms by simp
  then have nsp: "\<not> isspace c" and nsg: "c \<noteq> CHR ''-''" "c \<noteq> CHR ''+''"
    by (auto simp: isdigit_def isspace_def)
  have tw: "takeWhile isdigit cs = cs" "dropWhile isdigit cs = []"
    using assms by (simp_all add: list_all_iff)
  have nn: "0 \<le> digits_value (c # cs)"
    using assms by (rule digits_value_nonneg)
  have "LONG_MIN \<le> 0" "0 \<le> LONG_MAX" by (simp_all add: LONG_MIN_def LONG_MAX_def)
  then have m: "max LONG_MIN (min LONG_MAX (digits_value (c # cs))) =
                min LONG_MAX (digits_value (c # cs))"
    using nn by linarith
  show ?thesis
    unfolding strtol_def Let_def
    using c nsp nsg m by (simp add: tw)
qed

lemma decode_value_cases:
  "decode_value conv dval0 v =
     (if v \<noteq> [] \<and> hd v = CHR 0x27 then
        (if 2 \<le> length v \<and> last v = CHR 0x27 then Ret (enif_make_string (butlast (tl v)))
         else Ret (enif_make_string v))
      else if CHR ''.'' \<in> set v then enif_make_double (sscanf_lf conv dval0 v)
      else if snd (strtol v) = [] then Ret (Integer (fst (strtol v)))
      else Ret (enif_make_string v))"
proof -
  have "tl (take (length v - 1) v) = butlast (tl v)"
    by (simp add: butlast_conv_take tl_take)
  moreover have "v \<noteq> [] \<Longrightarrow> v ! (length v - 1) = last v"
    by (simp add: last_conv_nth)
  moreover have "v \<noteq> [] \<Longrightarrow> v ! 0 = hd v"
    by (simp add: hd_conv_nth)
  ultimately show ?thesis
    by (auto simp: decode_value_def split: prod.splits)
qed

lemmas decode_simps = decode_value_def strtol_def isspace_def isdigit_def digits_value_def
  LONG_MIN_def LONG_MAX_def Let_def enif_make_string_def sscanf_lf_def number_may_start_def
  enif_make_double_def isfinite_def

lemma decode_examples:
  "decode_value conv dval0 [CHR 0x27, CHR ''1'', CHR ''2'', CHR ''0'', CHR 0x27] =
     Ret (List [Integer 49, Integer 50, Integer 48])"
  "decode_value conv dval0 ''120'' = Ret (Integer 120)"
  "decode_value conv dval0 '' -12'' = Ret (Integer (- 12))"
  "decode_value conv dval0 ''12abc'' = Ret (List [Integer 49, Integer 50, Integer 97, Integer 98, Integer 99])"
  "decode_value conv dval0 ''T'' = Ret (List [Integer 84])"
  "decode_value conv dval0 '''' = Ret (Integer 0)"
  "decode_value conv dval0 ''99999999999999999999'' = Ret (Integer 9223372036854775807)"
  "decode_value conv dval0 [CHR 0x27, CHR ''a''] = Ret (List [Integer 39, Integer 97])"
  by (simp_all add: decode_simps)

text \<open>
  Claim C3, at a value with a decimal point that is not a number: the complex value
  \<^verbatim>\<open>(1.0, 2.0)\<close>. The float branch is taken, \<^verbatim>\<open>sscanf\<close> converts nothing, and the
  result is made of what the uninitialised \<^verbatim>\<open>dval\<close> held: the float 0.0 when that was
  0.0, the \<^verbatim>\<open>badarg\<close> exception when that was an infinity. No double is parsed from the
  text.
\<close>

theorem decode_reads_uninitialised_double:
  "decode_value conv 0 ''(1.0, 2.0)'' = Ret (Float 0) \<and>
   decode_value conv 0x7FF0000000000000 ''(1.0, 2.0)'' = Badarg \<and>
   decode_value conv dval0 ''(1.0, 2.0)'' = enif_make_double dval0"
  by (simp add: decode_simps)

section \<open>Running the model: simplification sets\<close>

text \<open>The definitions to unfold when an entry point is run on concrete arguments.\<close>

lemmas nif_simps = enif_inspect_binary_def enif_get_long_def enif_get_int_def enif_is_map_def
  enif_get_map_size_def enif_map_iterator_create_def
  LONG_MIN_def LONG_MAX_def INT_MIN_def INT_MAX_def FILENAME_SIZE_def FLOAT_IMG_def
  c_path_def bytes_of_def error_int_def error_atom_def ok_def
  dimensions_mismatch_def nbytes_of_def npixels_of_def invoke_def close_file_def fprintf_def

lemmas ref_simps = ref_fitsio_def ref_create_file_def ref_open_file_def ref_close_file_def
  ref_create_img_def ref_write_pix_def ref_read_pix_def ref_get_img_param_def ref_movabs_hdu_def
  ref_update_key_def ref_remove_def current_hdu_def set_hdu_def start_def printable_def
  put_card_def toupper_def char_of_def bit_Suc_0_iff

lemmas hdr_simps = header_card_def header_key_def update_key_def enif_get_atom_def
  enif_is_number_def enif_get_double_def enif_is_binary_def enif_is_list_def enif_get_string_def
  FLEN_KEYWORD_def FLEN_VALUE_def c_str_def skip_keys_def char_of_def

section \<open>Reading an image\<close>

lemma read_image_run:
  assumes "length bin < FILENAME_SIZE"
    and "fits_open_file L (c_path bin) READONLY 0 (world s) = (0, w1)"
    and "fits_get_img_param L 2 0 w1 = (((bitpix, naxis, naxes0, naxes1), status), w2)"
    and "naxis \<noteq> 2"
    and "fits_close_file L status w2 = (status', w3)"
  shows "read_image L (Binary bin) s =
     (error_int status',
      s\<lparr>world := w3,
        calls := calls s @ [Open_file (c_path bin) READONLY, Get_img_param, Close_file]\<rparr>)"
  using assms
  by (simp add: read_image_def enif_inspect_binary_def invoke_def close_file_def Let_def)

text \<open>
  Claim C9 names an error the code does not have. For a file with three axes and no
  library error \<^verbatim>\<open>read_image\<close> returns \<^verbatim>\<open>{error, 0}\<close>: the error tuple of the library
  status, with the status of success in it.
\<close>

theorem read_image_error_code_is_zero:
  "fst (read_image ref_fitsio (Binary a_fits) (start [(a_fits, Some (blank_image [2, 2, 2]))])) =
     Ret (Tuple [Atom ''error'', Integer 0]) \<and>
   calls (snd (read_image ref_fitsio (Binary a_fits)
                 (start [(a_fits, Some (blank_image [2, 2, 2]))]))) =
     [Open_file a_fits READONLY, Get_img_param, Close_file]"
  by (simp add: read_image_def nif_simps ref_simps Let_def)

text \<open>
  Claim C9, amended. When the library reports an axis count other than 2 for the image of
  the file, \<^verbatim>\<open>read_image\<close> closes the file and returns the error tuple
  \<^verbatim>\<open>{error, status}\<close>, \<open>status\<close> being what \<^verbatim>\<open>fits_close_file\<close> left (0 when the library
  itself met no error). No sample is read (\<^verbatim>\<open>fits_read_pix\<close> is not called) and no buffer
  is returned.
\<close>

theorem read_image_rejects_other_axis_counts:
  assumes "length bin < FILENAME_SIZE"
    and "fits_open_file L (c_path bin) READONLY 0 (world s) = (0, w1)"
    and "fits_get_img_param L 2 0 w1 = (((bitpix, naxis, naxes0, naxes1), status), w2)"
    and "naxis \<noteq> 2"
    and "fits_close_file L status w2 = (status', w3)"
  shows "read_image L (Binary bin) s =
     (Ret (Tuple [Atom ''error'', Integer status']),
      s\<lparr>world := w3,
        calls := calls s @ [Open_file (c_path bin) READONLY, Get_img_param, Close_file]\<rparr>)"
  using read_image_run [OF assms] by (simp add: error_int_def)

theorem read_image_rejects_other_axis_counts_witness:
  "fst (fits_get_img_param ref_fitsio 2 0
          \<lparr>files = [(a_fits, Some (blank_image [1, 1, 1]))], fptr = Some (a_fits, READONLY)\<rparr>) =
     ((- 32, 3, 1, 1), 0) \<and>
   read_image ref_fitsio (Binary a_fits) (start [(a_fits, Some (blank_image [1, 1, 1]))]) =
     (Ret (Tuple [Atom ''error'', Integer 0]),
      \<lparr>world = \<lparr>files = [(a_fits, Some (blank_image [1, 1, 1]))], fptr = None\<rparr>,
       calls = [Open_file a_fits READONLY, Get_img_param, Close_file],
       stderr = []\<rparr>)"
proof -
  let ?fs = "[(a_fits, Some (blank_image [1, 1, 1]))]"
  let ?w1 = "\<lparr>files = ?fs, fptr = Some (a_fits, READONLY)\<rparr>"
  have h1: "length a_fits < FILENAME_SIZE"
    by (simp add: bytes_of_def FILENAME_SIZE_def)
  have h2: "fits_open_file ref_fitsio (c_path a_fits) READONLY 0 (world (start ?fs)) = (0, ?w1)"
    by (simp add: nif_simps ref_simps)
  have h3: "fits_get_img_param ref_fitsio 2 0 ?w1 = (((- 32, 3, 1, 1), 0), ?w1)"
    by (simp add: nif_simps ref_simps)
  have h4: "(3::int) \<noteq> 2" by simp
  have h5: "fits_close_file ref_fitsio 0 ?w1 = (0, \<lparr>files = ?fs, fptr = None\<rparr>)"
    by (simp add: nif_simps ref_simps)
  show ?thesis
    using read_image_rejects_other_axis_counts [OF h1 h2 h3 h4 h5] h3
    by (simp add: nif_simps ref_simps)
qed

section \<open>The size test and file creation\<close>

lemma dimensions_mismatch_iff:
  "dimensions_mismatch w h d \<longleftrightarrow> int (length d) \<noteq> (w * h * 4) mod 2 ^ 64"
proof -
  have "(word_of_int w * word_of_int h :: 64 word) * 4 = word_of_int (w * h * 4)"
    by simp
  then have "nbytes_of w h = nat ((w * h * 4) mod 2 ^ 64)"
    unfolding nbytes_of_def by (simp only: unat_eq_nat_uint uint_word_of_int) simp
  then show ?thesis
    by (auto simp: dimensions_mismatch_def)
qed

lemma write_image_decoded:
  assumes "length p < FILENAME_SIZE"
    and "LONG_MIN \<le> w" and "w \<le> LONG_MAX" and "LONG_MIN \<le> h" and "h \<le> LONG_MAX"
  shows "write_image L [Binary p, Binary d, Integer w, Integer h] s =
     (if int (length d) \<noteq> (w * h * 4) mod 2 ^ 64 then (error_atom ''dimensions_mismatch'', s)
      else write_image_file L (c_path p) d w h FLOAT_IMG s)"
  using assms
  by (simp add: write_image_def enif_inspect_binary_def enif_get_long_def
      dimensions_mismatch_iff)

lemma write_fits_file_decoded:
  assumes "length p < FILENAME_SIZE"
    and "LONG_MIN \<le> w" and "w \<le> LONG_MAX" and "LONG_MIN \<le> h" and "h \<le> LONG_MAX"
  shows "write_fits_file L [Binary p, Binary d, Integer w, Integer h] s =
     (if int (length d) \<noteq> (w * h * 4) mod 2 ^ 64 then
        (error_atom ''dimensions_mismatch'',
         s\<lparr>stderr := stderr s @ [Debug_float_data ''input data'' d, Mismatch_msg w h (length d)]\<rparr>)
      else if \<not> malloc_ok L (length d) (world s) then
        (error_atom ''memory_allocation_failure'',
         s\<lparr>stderr := stderr s @ [Debug_float_data ''input data'' d,
                                  Creating_msg (c_path p) w h FLOAT_IMG, Malloc_msg]\<rparr>)
      else
        write_fits_body L (c_path p) d w h FLOAT_IMG None
          (s\<lparr>stderr := stderr s @ [Debug_float_data ''input data'' d,
                                   Creating_msg (c_path p) w h FLOAT_IMG,
                                   Debug_float_data ''copied data'' d]\<rparr>))"
  using assms
  by (simp add: write_fits_file_def enif_inspect_binary_def enif_get_long_def
      dimensions_mismatch_iff fprintf_def Let_def)

lemma write_image_file_first_call:
  "\<exists>cs. calls (snd (write_image_file L f d w h b s)) = calls s @ Create_file f # cs"
  by (auto simp: write_image_file_def invoke_def close_file_def Let_def split: prod.splits)


lemma write_image_never_removes:
  "Remove f \<in> set (calls (snd (write_image L argv s))) \<Longrightarrow> Remove f \<in> set (calls s)"
  by (auto simp: write_image_def write_image_file_def invoke_def close_file_def Let_def
      split: prod.splits option.splits if_splits)

text \<open>Where the product does not wrap around, a buffer of another length is refused
  with no call on the file system.\<close>

lemma write_rejects_wrong_length:
  assumes "length p < FILENAME_SIZE"
    and "0 \<le> w" and "w \<le> LONG_MAX" and "0 \<le> h" and "h \<le> LONG_MAX"
    and "w * h * 4 < 2 ^ 64"
    and "int (length d) \<noteq> w * h * 4"
  shows "write_image L [Binary p, Binary d, Integer w, Integer h] s =
           (error_atom ''dimensions_mismatch'', s)"
    and "fst (write_fits_file L [Binary p, Binary d, Integer w, Integer h] s) =
           error_atom ''dimensions_mismatch''"
    and "same_effects (snd (write_fits_file L [Binary p, Binary d, Integer w, Integer h] s)) s"
proof -
  have "0 \<le> w * h * 4" using assms(2,4) by simp
  then have m: "(w * h * 4) mod 2 ^ 64 = w * h * 4"
    using assms(6) by simp
  have r: "LONG_MIN \<le> w" "LONG_MIN \<le> h"
    using assms(2,4) by (simp_all add: LONG_MIN_def)
  show "write_image L [Binary p, Binary d, Integer w, Integer h] s =
           (error_atom ''dimensions_mismatch'', s)"
    using write_image_decoded [OF assms(1) r(1) assms(3) r(2) assms(5), of L d s] m assms(7)
    by simp
  show "fst (write_fits_file L [Binary p, Binary d, Integer w, Integer h] s) =
           error_atom ''dimensions_mismatch''"
    using write_fits_file_decoded [OF assms(1) r(1) assms(3) r(2) assms(5), of L d s] m assms(7)
    by simp
  show "same_effects (snd (write_fits_file L [Binary p, Binary d, Integer w, Integer h] s)) s"
    using write_fits_file_decoded [OF assms(1) r(1) assms(3) r(2) assms(5), of L d s] m assms(7)
    by (simp add: same_effects_def)
qed

text \<open>On a name that does not exist yet, with the reference library: what
  \<^verbatim>\<open>write_image\<close> wrote is what \<^verbatim>\<open>read_image\<close> returns.\<close>

lemma npixels_of_small:
  assumes "0 \<le> n" and "n < 2 ^ 63" and "w * h = n"
  shows "npixels_of w h = n"
proof -
  have "(word_of_int w * word_of_int h :: 64 word) = word_of_int n"
    unfolding assms(3) [symmetric] by simp
  moreover have "sint (word_of_int n :: 64 word) = n"
    using assms(1,2) by (simp add: sint_sbintrunc' signed_take_bit_int_eq_self)
  ultimately show ?thesis by (simp add: npixels_of_def)
qed

lemma round_trip_on_a_new_file:
  assumes "length p < FILENAME_SIZE"
    and "0 \<le> w" and "w \<le> LONG_MAX" and "0 \<le> h" and "h \<le> LONG_MAX"
    and "w * h * 4 = int (length d)" and "w * h * 4 < 2 ^ 63"
    and "map_of fs (c_path p) = None"
  shows "(case write_image ref_fitsio [Binary p, Binary d, Integer w, Integer h] (start fs) of
            (r, s) \<Rightarrow> (r, fst (read_image ref_fitsio (Binary p) s))) =
         (ok, Ret (Tuple [Atom ''ok'', Tuple [Integer w, Integer h, Binary d]]))"
proof -
  have n0: "0 \<le> w * h" using assms(2,4) by simp
  have n1: "w * h < 2 ^ 63" using assms(7) n0 by linarith
  have np: "npixels_of w h = w * h"
    using npixels_of_small [OF n0 n1] by simp
  have "0 \<le> w * h * 4" "w * h * 4 < 2 ^ 64"
    using n0 assms(7) by simp_all
  then have m: "(w * h * 4) mod 2 ^ 64 = w * h * 4"
    by (rule mod_pos_pos_trivial)
  have len: "4 * nat (w * h) = length d"
    using assms(6) n0 by linarith
  have r: "LONG_MIN \<le> w" "LONG_MIN \<le> h"
    using assms(2,4) by (simp_all add: LONG_MIN_def)
  have wr: "write_image ref_fitsio [Binary p, Binary d, Integer w, Integer h] (start fs) =
              write_image_file ref_fitsio (c_path p) d w h FLOAT_IMG (start fs)"
    using write_image_decoded [OF assms(1) r(1) assms(3) r(2) assms(5), of ref_fitsio d "start fs"]
      m assms(6) by simp
  have nn: "\<not> w * h < 0" using n0 by simp
  show ?thesis
    unfolding wr
    using assms(1,2,4,8) np len
    by (simp add: nn write_image_file_def read_image_def enif_inspect_binary_def
        invoke_def close_file_def ref_simps FLOAT_IMG_def Let_def ok_def error_int_def)
qed

text \<open>
  Claim C2, at an input where the product wraps around. The size test multiplies in 64-bit
  unsigned arithmetic: \<open>2 ^ 62 * 1 * 4\<close> is 0 there, the length of an empty buffer.
  The test passes, \<^verbatim>\<open>write_image\<close> goes on to \<^verbatim>\<open>fits_create_file\<close>, and the file exists
  afterwards with a declared width of \<open>2 ^ 62\<close>; no \<^verbatim>\<open>dimensions_mismatch\<close> is returned.
\<close>

theorem size_test_wraps_around:
  "\<not> dimensions_mismatch (2 ^ 62) 1 [] \<and>
   write_image ref_fitsio [Binary a_fits, Binary [], Integer (2 ^ 62), Integer 1] (start []) =
     (Ret (Tuple [Atom ''error'', Integer 106]),
      \<lparr>world = \<lparr>files = [(a_fits, Some \<lparr>hdu_bitpix = - 32, hdu_naxes = [2 ^ 62, 1],
                                           hdu_pixels = [], hdu_keys = []\<rparr>)],
                fptr = None\<rparr>,
       calls = [Create_file a_fits, Create_img (- 32) 2 [2 ^ 62, 1], Write_pix (2 ^ 62) [],
                Close_file],
       stderr = []\<rparr>)"
  by (simp add: write_image_def write_image_file_def nif_simps ref_simps Let_def)





text \<open>
  Claim C7, at a name that exists. \<^verbatim>\<open>write_image\<close> calls \<^verbatim>\<open>fits_create_file\<close> without
  removing the file first: the library refuses (status 105), the call fails and the old
  file stays. \<^verbatim>\<open>write_fits_file\<close>, on the same arguments and the same disk, removes the
  file first and succeeds.
\<close>

theorem write_image_refuses_an_existing_file:
  "write_image ref_fitsio [Binary a_fits, Binary [0, 0, 128, 63], Integer 1, Integer 1]
      (start [(a_fits, Some (blank_image [1, 1]))]) =
     (Ret (Tuple [Atom ''error'', Integer 105]),
      \<lparr>world = \<lparr>files = [(a_fits, Some (blank_image [1, 1]))], fptr = None\<rparr>,
       calls = [Create_file a_fits], stderr = []\<rparr>) \<and>
   write_fits_file ref_fitsio [Binary a_fits, Binary [0, 0, 128, 63], Integer 1, Integer 1]
      (start [(a_fits, Some (blank_image [1, 1]))]) =
     (Ret (Atom ''ok''),
      \<lparr>world = \<lparr>files = [(a_fits, Some \<lparr>hdu_bitpix = - 32, hdu_naxes = [1, 1],
                                           hdu_pixels = [0, 0, 128, 63], hdu_keys = []\<rparr>)],
                fptr = None\<rparr>,
       calls = [Remove a_fits, Create_file a_fits, Create_img (- 32) 2 [1, 1],
                Write_pix 1 [0, 0, 128, 63], Close_file],
       stderr = [Debug_float_data ''input data'' [0, 0, 128, 63],
                 Creating_msg a_fits 1 1 (- 32),
                 Debug_float_data ''copied data'' [0, 0, 128, 63],
                 Writing_msg 1, Success_msg a_fits]\<rparr>)"
  by (simp add: write_image_def write_image_file_def write_fits_file_def write_fits_body_def
      nif_simps ref_simps Let_def)

text \<open>
  Claim C1, at a name that exists. \<^verbatim>\<open>write_image\<close> fails with status 105 and the
  \<^verbatim>\<open>read_image\<close> that follows returns the old image, not the buffer handed to
  \<^verbatim>\<open>write_image\<close>.
\<close>

theorem round_trip_reads_the_old_image:
  "(case write_image ref_fitsio [Binary a_fits, Binary [0, 0, 128, 63], Integer 1, Integer 1]
           (start [(a_fits, Some (blank_image [1, 1]))]) of
      (r, s) \<Rightarrow> (r, fst (read_image ref_fitsio (Binary a_fits) s))) =
     (Ret (Tuple [Atom ''error'', Integer 105]),
      Ret (Tuple [Atom ''ok'', Tuple [Integer 1, Integer 1, Binary [0, 0, 0, 0]]]))"
  by (simp add: write_image_def write_image_file_def read_image_def nif_simps ref_simps Let_def)

theorem round_trip_reads_the_old_image_witness:
  "(case write_image ref_fitsio [Binary a_fits, Binary [0, 0, 128, 63], Integer 1, Integer 1]
           (start [(a_fits, Some (blank_image [1, 1]))]) of
      (r, s) \<Rightarrow> (r, fst (read_image ref_fitsio (Binary a_fits) s))) \<noteq>
     (Ret (Atom ''ok''),
      Ret (Tuple [Atom ''ok'', Tuple [Integer 1, Integer 1, Binary [0, 0, 128, 63]]]))"
  using round_trip_reads_the_old_image by simp

text \<open>
  Claim C8, at a text value given as a binary. The entry leads to no update:
  \<^verbatim>\<open>enif_get_string\<close> reads charlists only, so \<^verbatim>\<open>write_header_cards\<close> returns \<^verbatim>\<open>ok\<close>
  with no \<^verbatim>\<open>fits_update_key\<close> call and nothing printed. The same text as a charlist is
  written as a string.
\<close>

theorem binary_text_is_not_written:
  "planned_update (Atom ''OBJECT'', Binary (bytes_of ''M31'')) = None \<and>
   write_header_cards ref_fitsio (Binary a_fits)
       (Map [(Atom ''OBJECT'', Binary (bytes_of ''M31''))])
       (start [(a_fits, Some (blank_image [1, 1]))]) =
     (Ret (Atom ''ok''),
      \<lparr>world = \<lparr>files = [(a_fits, Some (blank_image [1, 1]))], fptr = None\<rparr>,
       calls = [Fopen a_fits, Open_file a_fits READWRITE, Movabs_hdu 1, Close_file],
       stderr = []\<rparr>) \<and>
   write_header_cards ref_fitsio (Binary a_fits)
       (Map [(Atom ''OBJECT'', List [Integer 77, Integer 51, Integer 49])])
       (start [(a_fits, Some (blank_image [1, 1]))]) =
     (Ret (Atom ''ok''),
      \<lparr>world = \<lparr>files = [(a_fits, Some \<lparr>hdu_bitpix = - 32, hdu_naxes = [1, 1],
                                           hdu_pixels = [0, 0, 0, 0],
                                           hdu_keys = [(''OBJECT'', TSTRING ''M31'')]\<rparr>)],
                fptr = None\<rparr>,
       calls = [Fopen a_fits, Open_file a_fits READWRITE, Movabs_hdu 1,
                Update_key ''OBJECT'' (TSTRING ''M31''), Close_file],
       stderr = []\<rparr>)"
  by (simp add: write_header_cards_def planned_update_def hdr_simps nif_simps ref_simps Let_def)

section \<open>The header stage of the two writers\<close>


text \<open>An entry whose key is, byte for byte, one of \<^verbatim>\<open>SIMPLE\<close>, \<^verbatim>\<open>BITPIX\<close>, \<^verbatim>\<open>NAXIS\<close>,
  \<^verbatim>\<open>NAXIS1\<close>, \<^verbatim>\<open>NAXIS2\<close>, \<^verbatim>\<open>NAXIS3\<close>, \<^verbatim>\<open>END\<close> is skipped by both loops: the state
  is left as it was (\<^verbatim>\<open>write_fits_file\<close> prints that it skips the key), and neither
  entry point ever calls \<^verbatim>\<open>fits_update_key\<close> with a keyword equal to one of these,
  whatever the map, the other arguments and the library.\<close>

lemma structural_keys_are_skipped:
  assumes "k \<in> set skip_keys"
  shows "header_card L (Atom k, v) s = (False, s) \<and>
         header_key L (Atom k, v) s = fprintf (Skip_msg k) s \<and>
         (Update_key k x \<in> set (calls (snd (write_header_cards L arg0 arg1 s))) \<longrightarrow>
            Update_key k x \<in> set (calls s)) \<and>
         (Update_key k x \<in> set (calls (snd (write_fits_file L argv s))) \<longrightarrow>
            Update_key k x \<in> set (calls s))"
proof -
  have a: "c_str k = k" "length k < FLEN_KEYWORD"
    using skip_keys_c_str [OF assms] by simp_all
  have "header_card L (Atom k, v) s = (False, s)"
    using a assms by (simp add: header_card_def enif_get_atom_def)
  moreover have "header_key L (Atom k, v) s = fprintf (Skip_msg k) s"
    using a assms by (simp add: header_key_def enif_get_atom_def)
  moreover have "Update_key k x \<notin> set (update_calls es)" for es
    using update_calls_not_structural [of k x es] assms by blast
  ultimately show ?thesis
    using write_header_cards_updates [of k x L arg0 arg1 s]
      write_fits_file_updates [of k x L argv s]
    by blast
qed

lemma structural_keys_run:
  "''NAXIS1'' \<in> set skip_keys \<and>
   header_card ref_fitsio (Atom ''NAXIS1'', Integer 7) (start []) = (False, start []) \<and>
   write_fits_file ref_fitsio
       [Binary a_fits, Binary [0, 0, 128, 63], Integer 1, Integer 1, Integer (- 32),
        Map [(Atom ''NAXIS1'', Integer 7), (Atom ''EXPTIME'', Integer 120)]] (start []) =
     (Ret (Atom ''ok''),
      \<lparr>world = \<lparr>files = [(a_fits, Some \<lparr>hdu_bitpix = - 32, hdu_naxes = [1, 1],
                                           hdu_pixels = [0, 0, 128, 63],
                                           hdu_keys = [(''EXPTIME'', TLONG 120)]\<rparr>)],
                fptr = None\<rparr>,
       calls = [Remove a_fits, Create_file a_fits, Create_img (- 32) 2 [1, 1],
                Write_pix 1 [0, 0, 128, 63], Update_key ''EXPTIME'' (TLONG 120), Close_file],
       stderr = [Debug_float_data ''input data'' [0, 0, 128, 63],
                 Creating_msg a_fits 1 1 (- 32),
                 Debug_float_data ''copied data'' [0, 0, 128, 63],
                 Writing_msg 1, Header_msg, Skip_msg ''NAXIS1'',
                 Update_msg ''EXPTIME'' (TLONG 120), Success_msg a_fits]\<rparr>)"
proof -
  have h: "''NAXIS1'' \<in> set skip_keys" by (simp add: skip_keys_def)
  show ?thesis
    using structural_keys_are_skipped [OF h, of ref_fitsio "Integer 7" "start []"] h
    by (simp add: write_fits_file_def write_fits_body_def hdr_simps nif_simps ref_simps Let_def)
qed

text \<open>
  Claim C4, at a key in lower case. The loops compare the key with \<^verbatim>\<open>strcmp\<close>, so the
  entry \<^verbatim>\<open>naxis1 => 7\<close> is not skipped: \<^verbatim>\<open>fits_update_key\<close> is called with the keyword
  \<^verbatim>\<open>naxis1\<close> and the caller's value, for every library. The library takes the name for
  the card \<^verbatim>\<open>NAXIS1\<close>: the file declared with width 1 ends with \<^verbatim>\<open>NAXIS1\<close> = 7.
\<close>

theorem lower_case_key_overwrites_naxis1:
  "planned_update (Atom ''naxis1'', Integer 7) = Some (''naxis1'', TLONG 7) \<and>
   write_fits_file ref_fitsio
       [Binary a_fits, Binary [0, 0, 128, 63], Integer 1, Integer 1, Integer (- 32),
        Map [(Atom ''naxis1'', Integer 7)]] (start []) =
     (Ret (Atom ''ok''),
      \<lparr>world = \<lparr>files = [(a_fits, Some \<lparr>hdu_bitpix = - 32, hdu_naxes = [7, 1],
                                           hdu_pixels = [0, 0, 128, 63], hdu_keys = []\<rparr>)],
                fptr = None\<rparr>,
       calls = [Remove a_fits, Create_file a_fits, Create_img (- 32) 2 [1, 1],
                Write_pix 1 [0, 0, 128, 63], Update_key ''naxis1'' (TLONG 7), Close_file],
       stderr = [Debug_float_data ''input data'' [0, 0, 128, 63],
                 Creating_msg a_fits 1 1 (- 32),
                 Debug_float_data ''copied data'' [0, 0, 128, 63],
                 Writing_msg 1, Header_msg,
                 Update_msg ''naxis1'' (TLONG 7), Success_msg a_fits]\<rparr>) \<and>
   write_header_cards ref_fitsio (Binary a_fits) (Map [(Atom ''naxis1'', Integer 7)])
       (start [(a_fits, Some (blank_image [1, 1]))]) =
     (Ret (Atom ''ok''),
      \<lparr>world = \<lparr>files = [(a_fits, Some (blank_image [7, 1]))], fptr = None\<rparr>,
       calls = [Fopen a_fits, Open_file a_fits READWRITE, Movabs_hdu 1,
                Update_key ''naxis1'' (TLONG 7), Close_file],
       stderr = []\<rparr>)"
  by (simp add: write_header_cards_def write_fits_file_def write_fits_body_def planned_update_def
      hdr_simps nif_simps ref_simps Let_def)







text \<open>The dispatch on the type of the value.\<close>

lemma planned_update_typed:
  assumes "length a < FLEN_KEYWORD" and "c_str a \<notin> set skip_keys"
  shows "LONG_MIN \<le> n \<and> n \<le> LONG_MAX \<longrightarrow>
           planned_update (Atom a, Integer n) = Some (c_str a, TLONG n)"
    and "planned_update (Atom a, Float x) = Some (c_str a, TDOUBLE x)"
    and "latin1_chars ts = Some cs \<and> length cs < FLEN_VALUE \<longrightarrow>
           planned_update (Atom a, List ts) = Some (c_str a, TSTRING (c_str cs))"
    and "planned_update (Atom a, Binary b) = None"
    and "n < LONG_MIN \<or> LONG_MAX < n \<longrightarrow> planned_update (Atom a, Integer n) = None"
  using assms by (auto simp: planned_update_def enif_get_atom_def)

text \<open>
  Claim C10. An entry whose key \<^verbatim>\<open>enif_get_atom\<close> cannot read into the keyword buffer, or
  whose value is not a number and not a charlist \<^verbatim>\<open>enif_get_string\<close> can read into the
  value buffer (a binary is such a value), changes nothing in \<^verbatim>\<open>write_header_cards\<close>:
  the call is the call on the map without the entry. In \<^verbatim>\<open>write_fits_file\<close> the result,
  the world and the calls are those of the call without the entry; the only line printed
  for it is the notice that a structural key is skipped, when its key is one.
\<close>

theorem unusable_entries_are_skipped:
  assumes "enif_get_atom key FLEN_KEYWORD = None \<or>
           (\<not> enif_is_number val \<and> fst (enif_get_string val FLEN_VALUE) \<le> 0)"
  shows
    "snd (header_card L (key, val) s) = s \<and>
     header_key L (key, val) s =
       (case enif_get_atom key FLEN_KEYWORD of
          None \<Rightarrow> s
        | Some a \<Rightarrow> if c_str a \<in> set skip_keys then fprintf (Skip_msg (c_str a)) s else s) \<and>
     write_header_cards L arg0 (Map (es1 @ (key, val) # es2)) s =
       write_header_cards L arg0 (Map (es1 @ es2)) s \<and>
     fst (write_fits_file L [a0, a1, a2, a3, a4, Map (es1 @ (key, val) # es2)] s) =
       fst (write_fits_file L [a0, a1, a2, a3, a4, Map (es1 @ es2)] s) \<and>
     same_effects (snd (write_fits_file L [a0, a1, a2, a3, a4, Map (es1 @ (key, val) # es2)] s))
                  (snd (write_fits_file L [a0, a1, a2, a3, a4, Map (es1 @ es2)] s)) \<and>
     \<not> enif_is_number (Binary b) \<and> fst (enif_get_string (Binary b) FLEN_VALUE) = 0"
proof -
  have p: "planned_update (key, val) = None"
    using assms by (rule unusable_entry_plans_nothing)
  show ?thesis
    using header_card_skipped [OF p, of L s] header_key_skipped [OF p, of L s]
      write_header_cards_skip [OF p, of L arg0 es1 es2 s]
      write_fits_file_skip [OF p, of L a0 a1 a2 a3 a4 es1 es2 s]
    by (simp add: enif_is_number_def enif_get_string_def)
qed

theorem unusable_entries_are_skipped_witness:
  "\<not> enif_is_number (Binary (bytes_of ''M31'')) \<and>
   fst (enif_get_string (Binary (bytes_of ''M31'')) FLEN_VALUE) \<le> 0 \<and>
   write_header_cards ref_fitsio (Binary a_fits)
       (Map [(Atom ''EXPTIME'', Integer 120), (Atom ''OBJECT'', Binary (bytes_of ''M31'')),
             (Integer 5, Integer 1), (Atom ''NOTE'', Atom ''none'')])
       (start [(a_fits, Some (blank_image [1, 1]))]) =
     (Ret (Atom ''ok''),
      \<lparr>world = \<lparr>files = [(a_fits, Some \<lparr>hdu_bitpix = - 32, hdu_naxes = [1, 1],
                    hdu_pixels = [0, 0, 0, 0], hdu_keys = [(''EXPTIME'', TLONG 120)]\<rparr>)],
                fptr = None\<rparr>,
       calls = [Fopen a_fits, Open_file a_fits READWRITE, Movabs_hdu 1,
                Update_key ''EXPTIME'' (TLONG 120), Close_file],
       stderr = []\<rparr>) \<and>
   write_fits_file ref_fitsio
       [Binary a_fits, Binary [0, 0, 128, 63], Integer 1, Integer 1, Integer (- 32),
        Map [(Atom ''EXPTIME'', Integer 120), (Atom ''OBJECT'', Binary (bytes_of ''M31''))]]
       (start []) =
     (Ret (Atom ''ok''),
      \<lparr>world = \<lparr>files = [(a_fits, Some \<lparr>hdu_bitpix = - 32, hdu_naxes = [1, 1],
                    hdu_pixels = [0, 0, 128, 63], hdu_keys = [(''EXPTIME'', TLONG 120)]\<rparr>)],
                fptr = None\<rparr>,
       calls = [Remove a_fits, Create_file a_fits, Create_img (- 32) 2 [1, 1],
                Write_pix 1 [0, 0, 128, 63], Update_key ''EXPTIME'' (TLONG 120), Close_file],
       stderr = [Debug_float_data ''input data'' [0, 0, 128, 63],
                 Creating_msg a_fits 1 1 (- 32),
                 Debug_float_data ''copied data'' [0, 0, 128, 63],
                 Writing_msg 1, Header_msg,
                 Update_msg ''EXPTIME'' (TLONG 120), Success_msg a_fits]\<rparr>)"
proof -
  have h: "enif_get_atom (Atom ''OBJECT'') FLEN_KEYWORD = None \<or>
           (\<not> enif_is_number (Binary (bytes_of ''M31'')) \<and>
            fst (enif_get_string (Binary (bytes_of ''M31'')) FLEN_VALUE) \<le> 0)"
    by (simp add: enif_is_number_def enif_get_string_def)
  show ?thesis
    using unusable_entries_are_skipped [OF h, of ref_fitsio "start []"]
    by (simp add: write_header_cards_def write_fits_file_def write_fits_body_def
        hdr_simps nif_simps ref_simps Let_def)
qed

end
